theory Spec2Isabelle
  imports Main "HOL-Library.Word" "HOL-Library.Char_ord" "HOL-Library.List_Lexorder"
begin

section \<open>Values of the program\<close>

text \<open>
  The proxy of \<^verbatim>\<open>src/index.ts\<close> handles bytes (Node \<^verbatim>\<open>Buffer\<close>s), strings and the
  values produced by \<^verbatim>\<open>JSON.parse\<close>.  A buffer is a list of bytes, a string a list of
  characters, a JSON value a member of the datatype below (an object keeps its
  properties in order, as \<^verbatim>\<open>JSON.stringify\<close> prints them).  A number is an integer:
  the program itself only tests a number for being zero, and its own numbers (status
  code, error code, milliseconds) are integers.
\<close>

type_synonym byte = "8 word"
type_synonym buffer = "byte list"

datatype json =
    JNull
  | JBool bool
  | JNum int
  | JStr string
  | JArr "json list"
  | JObj "(string \<times> json) list"

text \<open>
  JavaScript truthiness, as used by \<^verbatim>\<open>||\<close>, \<^verbatim>\<open>&&\<close>, \<^verbatim>\<open>?:\<close> and \<^verbatim>\<open>if\<close>:
  \<^verbatim>\<open>null\<close>, \<^verbatim>\<open>false\<close>, \<^verbatim>\<open>0\<close> and the empty string are falsy, every object
  and array is truthy.  \<^verbatim>\<open>undefined\<close> is \<open>None\<close> of an option type and falsy.
\<close>

fun truthy :: "json \<Rightarrow> bool" where
  "truthy JNull = False"
| "truthy (JBool b) = b"
| "truthy (JNum n) = (n \<noteq> 0)"
| "truthy (JStr s) = (s \<noteq> [])"
| "truthy (JArr xs) = True"
| "truthy (JObj kvs) = True"

text \<open>
  Property access \<^verbatim>\<open>v.key\<close> on a value that is neither \<^verbatim>\<open>null\<close> nor
  \<^verbatim>\<open>undefined\<close>, for the keys the program reads (\<^verbatim>\<open>method\<close>, \<^verbatim>\<open>id\<close>): only an
  object can carry them.  \<open>opt_chain\<close> is the optional chaining \<^verbatim>\<open>v?.key\<close>, which
  yields \<^verbatim>\<open>undefined\<close> on \<^verbatim>\<open>null\<close> and \<^verbatim>\<open>undefined\<close>.
\<close>

fun get_prop :: "json \<Rightarrow> string \<Rightarrow> json option" where
  "get_prop (JObj kvs) k = map_of kvs k"
| "get_prop v k = None"

fun opt_chain :: "json option \<Rightarrow> string \<Rightarrow> json option" where
  "opt_chain None k = None"
| "opt_chain (Some JNull) k = None"
| "opt_chain (Some v) k = get_prop v k"

text \<open>
  A header value as Node stores it (\<^verbatim>\<open>string | number | string[]\<close>); the headers of
  a message are an object from lower-case names to such values.
\<close>

datatype header_value = HStr string | HNum int | HArr "string list"

type_synonym headers = "(string \<times> header_value) list"

text \<open>
  The errors that the program can meet: a call of a method that a value does not have,
  a failure of zlib, a failure of the file system, and the transport error that the
  proxy hands to its error hook.
\<close>

datatype js_error = TypeError | ZlibError | FsError | TransportError

datatype color = Blue | Green | Red | Gray | Yellow | Cyan

datatype console_event =
    ConsoleError string js_error
  | ConsoleLog string

text \<open>
  \<^verbatim>\<open>String.prototype.toLowerCase\<close> on the letters that matter for the comparison with
  \<^verbatim>\<open>"gzip"\<close>: an upper-case ASCII letter becomes its lower-case letter, every other
  character is kept.
\<close>

definition lower_char :: "char \<Rightarrow> char" where
  "lower_char c =
     (if (65::nat) \<le> of_char c \<and> of_char c \<le> (90::nat)
      then char_of (of_char c + (32::nat)) else c)"

definition toLowerCase :: "string \<Rightarrow> string" where
  "toLowerCase s = map lower_char s"

section \<open>The platform the program runs on\<close>

text \<open>
  The program calls into Node, zlib and chalk.  Their code is not part of the
  repository, so the model takes them as a record of functions:
  \<^item> \<open>gunzipSync\<close>: \<^verbatim>\<open>zlib.gunzipSync\<close>, \<open>None\<close> when it throws;
  \<^item> \<open>toString_utf8\<close>: \<^verbatim>\<open>Buffer.prototype.toString("utf8")\<close>, which never throws;
  \<^item> \<open>Buffer_from\<close>: \<^verbatim>\<open>Buffer.from(string)\<close>, the UTF-8 bytes of a string;
  \<^item> \<open>JSON_parse\<close>: \<^verbatim>\<open>JSON.parse\<close>, \<open>None\<close> when it throws a SyntaxError;
  \<^item> \<open>JSON_stringify\<close>, \<open>JSON_pretty\<close>: \<^verbatim>\<open>JSON.stringify(v)\<close> and
    \<^verbatim>\<open>JSON.stringify(v, null, 2)\<close>;
  \<^item> \<open>toISOString\<close>: \<^verbatim>\<open>Date.prototype.toISOString\<close> of a time in milliseconds;
  \<^item> \<open>String_num\<close>, \<open>String_json\<close>: the conversion to string of a template literal;
  \<^item> \<open>chalk\<close>: the colouring of a string.
\<close>

record platform =
  gunzipSync :: "buffer \<Rightarrow> buffer option"
  toString_utf8 :: "buffer \<Rightarrow> string"
  Buffer_from :: "string \<Rightarrow> buffer"
  JSON_parse :: "string \<Rightarrow> json option"
  JSON_stringify :: "json \<Rightarrow> string"
  JSON_pretty :: "json \<Rightarrow> string"
  toISOString :: "int \<Rightarrow> string"
  String_num :: "int \<Rightarrow> string"
  String_json :: "json \<Rightarrow> string"
  chalk :: "color \<Rightarrow> string \<Rightarrow> string"

section \<open>Response capture and decode: \<^verbatim>\<open>handleResponse\<close>\<close>

text \<open>
  The result of \<^verbatim>\<open>handleResponse\<close>: the decoded text and the parsed JSON value, where
  \<^verbatim>\<open>null\<close> marks that there is none.
\<close>

record captured =
  cr_text :: string
  cr_json :: json

text \<open>
  Line 124, \<^verbatim>\<open>headers["content-encoding"]?.toLowerCase()\<close>: \<^verbatim>\<open>undefined\<close> when the
  header is not set, the lower-cased value when it is a string, and a TypeError when
  it is a number or an array, which have no \<^verbatim>\<open>toLowerCase\<close>.
\<close>

definition contentEncoding :: "headers \<Rightarrow> js_error + string option" where
  "contentEncoding hs =
     (case map_of hs ''content-encoding'' of
        None \<Rightarrow> Inr None
      | Some (HStr s) \<Rightarrow> Inr (Some (toLowerCase s))
      | Some (HNum n) \<Rightarrow> Inl TypeError
      | Some (HArr a) \<Rightarrow> Inl TypeError)"

text \<open>
  Lines 127 to 137: the inner \<^verbatim>\<open>try\<close> around \<^verbatim>\<open>zlib.gunzipSync\<close>.  A failure is
  written to the console and the buffer is kept as it is.
\<close>

definition decompress ::
  "platform \<Rightarrow> string option \<Rightarrow> buffer \<Rightarrow> console_event list \<times> buffer" where
  "decompress P enc buf =
     (if enc = Some ''gzip''
      then (case gunzipSync P buf of
              Some d \<Rightarrow> ([], d)
            | None \<Rightarrow>
                ([ConsoleError (chalk P Yellow ''Failed to decompress gzipped response'')
                    ZlibError], buf))
      else ([], buf))"

text \<open>Lines 143 to 147: the inner \<^verbatim>\<open>try\<close> around \<^verbatim>\<open>JSON.parse\<close>.\<close>

definition parse_body :: "platform \<Rightarrow> string \<Rightarrow> captured" where
  "parse_body P responseText =
     (case JSON_parse P responseText of
        Some v \<Rightarrow> \<lparr>cr_text = responseText, cr_json = v\<rparr>
      | None \<Rightarrow> \<lparr>cr_text = responseText, cr_json = JNull\<rparr>)"

text \<open>
  The body of the outer \<^verbatim>\<open>try\<close> (lines 123 to 147): the console output so far and
  either the error thrown or the value returned.
\<close>

definition handleResponse_try ::
  "platform \<Rightarrow> buffer \<Rightarrow> headers \<Rightarrow> console_event list \<times> (js_error + captured)" where
  "handleResponse_try P buf hs =
     (case contentEncoding hs of
        Inl e \<Rightarrow> ([], Inl e)
      | Inr enc \<Rightarrow>
          (let (out, decompressedBuffer) = decompress P enc buf;
               responseText = toString_utf8 P decompressedBuffer
           in (out, Inr (parse_body P responseText))))"

text \<open>
  \<^verbatim>\<open>handleResponse\<close> with its outer \<^verbatim>\<open>catch\<close> (lines 148 to 151): the console output
  and the value returned to the caller.
\<close>

definition handleResponse ::
  "platform \<Rightarrow> buffer \<Rightarrow> headers \<Rightarrow> console_event list \<times> captured" where
  "handleResponse P buf hs =
     (case handleResponse_try P buf hs of
        (out, Inr r) \<Rightarrow> (out, r)
      | (out, Inl e) \<Rightarrow>
          (out @ [ConsoleError (chalk P Red ''Error processing response'') e],
           \<lparr>cr_text = ''Error processing response'', cr_json = JNull\<rparr>))"

section \<open>The world outside the program\<close>

text \<open>
  What the program reads from and writes to its environment: the wall clock (the
  \<open>i\<close>-th evaluation of \<^verbatim>\<open>new Date()\<close> reads \<open>now_ms w i\<close>, in milliseconds since the
  epoch), the generator of UUIDs (the \<open>i\<close>-th call of \<^verbatim>\<open>uuidv4()\<close> returns
  \<open>uuid_gen w i\<close>), the file system (\<open>fs\<close>, from path to content; a write to a path in
  \<open>write_fails\<close> throws) and the console.
\<close>

record world =
  now_ms :: "nat \<Rightarrow> int"
  clock_reads :: nat
  uuid_gen :: "nat \<Rightarrow> string"
  uuid_calls :: nat
  write_fails :: "string \<Rightarrow> bool"
  fs :: "string \<Rightarrow> string option"
  console :: "console_event list"

definition new_Date :: "world \<Rightarrow> int \<times> world" where
  "new_Date w = (now_ms w (clock_reads w), w\<lparr>clock_reads := Suc (clock_reads w)\<rparr>)"

definition uuidv4 :: "world \<Rightarrow> string \<times> world" where
  "uuidv4 w = (uuid_gen w (uuid_calls w), w\<lparr>uuid_calls := Suc (uuid_calls w)\<rparr>)"

definition writeFileSync :: "string \<Rightarrow> string \<Rightarrow> world \<Rightarrow> js_error + world" where
  "writeFileSync file content w =
     (if write_fails w file then Inl FsError
      else Inr (w\<lparr>fs := (fs w)(file \<mapsto> content)\<rparr>))"

definition console_emit :: "console_event list \<Rightarrow> world \<Rightarrow> world" where
  "console_emit evs w = w\<lparr>console := console w @ evs\<rparr>"

text \<open>
  \<^verbatim>\<open>path.join(dir, name)\<close> for a directory path that is already normalised and a
  name that is a single segment.
\<close>

definition path_join :: "string \<Rightarrow> string \<Rightarrow> string" where
  "path_join dir name = dir @ ''/'' @ name"

section \<open>The request, the response object and the underlying stream\<close>

text \<open>
  The request as the middleware reads it; \<open>req_body\<close> is \<^verbatim>\<open>req.body\<close> as the JSON body
  parser left it, \<open>None\<close> for \<^verbatim>\<open>undefined\<close>.
\<close>

record request =
  req_method :: string
  req_path :: string
  req_headers :: headers
  req_body :: "json option"

text \<open>
  The first argument of \<^verbatim>\<open>res.write\<close> and \<^verbatim>\<open>res.end\<close>.  The remaining arguments
  (encoding, callback) are values of a type \<open>'a\<close> the wrapper never looks at.
\<close>

datatype chunk = Undefined | Str string | Buf buffer

text \<open>
  The calls that reach the methods of the response object as Express made it
  (\<^verbatim>\<open>originalWrite\<close>, \<^verbatim>\<open>originalEnd\<close>, \<^verbatim>\<open>writeHead\<close>): they are what the client is sent.
\<close>

datatype 'a sink_call =
    Head int headers
  | Write chunk "'a list"
  | End chunk "'a list"

text \<open>
  The response object: its status code, the headers that \<^verbatim>\<open>res.getHeaders()\<close> returns,
  whether the head has been sent, and the calls received so far.  The original methods
  record their call; Node counts the head as sent from the first of them on.

  \<^verbatim>\<open>res.setHeader\<close> stores a header under its lower-cased name: it replaces the value of
  a name that is set and adds a name that is not.  \<^verbatim>\<open>res.writeHead\<close> sets the status
  code and, when a header has been set before (Express sets one on every response),
  sets each of the headers it is given in the same way, so that \<^verbatim>\<open>res.getHeaders()\<close>
  returns them too; with no header set before it sends its headers without storing
  them.
\<close>

record 'a response =
  statusCode :: int
  res_headers :: headers
  headersSent :: bool
  sink :: "'a sink_call list"

definition originalWrite :: "chunk \<Rightarrow> 'a list \<Rightarrow> 'a response \<Rightarrow> 'a response" where
  "originalWrite c args res = res\<lparr>headersSent := True, sink := sink res @ [Write c args]\<rparr>"

definition originalEnd :: "chunk \<Rightarrow> 'a list \<Rightarrow> 'a response \<Rightarrow> 'a response" where
  "originalEnd c args res = res\<lparr>headersSent := True, sink := sink res @ [End c args]\<rparr>"

fun setHeader :: "string \<Rightarrow> header_value \<Rightarrow> headers \<Rightarrow> headers" where
  "setHeader k v [] = [(toLowerCase k, v)]"
| "setHeader k v ((k', v') # hs) =
     (if k' = toLowerCase k then (k', v) # hs else (k', v') # setHeader k v hs)"

definition writeHead :: "int \<Rightarrow> headers \<Rightarrow> 'a response \<Rightarrow> 'a response" where
  "writeHead code hs res =
     res\<lparr>statusCode := code,
         res_headers :=
           (if res_headers res = [] then []
            else fold (\<lambda>(k, v). setHeader k v) hs (res_headers res)),
         headersSent := True,
         sink := sink res @ [Head code hs]\<rparr>"

section \<open>The logging middleware (lines 37 to 118)\<close>

text \<open>The variables the two overrides close over.\<close>

record request_context =
  requestStartTime :: int
  requestTime :: string
  requestBody :: "json option"
  chunks :: "buffer list"

definition middleware :: "platform \<Rightarrow> request \<Rightarrow> world \<Rightarrow> request_context \<times> world" where
  "middleware P req w =
     (let (t, w1) = new_Date w
      in (\<lparr>requestStartTime = t, requestTime = toISOString P t,
           requestBody = req_body req, chunks = []\<rparr>, w1))"

text \<open>
  \<^verbatim>\<open>if (chunk) chunks.push(Buffer.isBuffer(chunk) ? chunk : Buffer.from(chunk))\<close>, the
  first statement of both overrides.  \<^verbatim>\<open>undefined\<close> and the empty string are falsy and
  skipped, a non-empty string is buffered as its bytes, a buffer (an object, so truthy
  even when empty) as it is.
\<close>

fun capture :: "platform \<Rightarrow> chunk \<Rightarrow> request_context \<Rightarrow> request_context" where
  "capture P Undefined ctx = ctx"
| "capture P (Str s) ctx =
     (if s \<noteq> [] then ctx\<lparr>chunks := chunks ctx @ [Buffer_from P s]\<rparr> else ctx)"
| "capture P (Buf b) ctx = ctx\<lparr>chunks := chunks ctx @ [b]\<rparr>"

text \<open>The override of \<^verbatim>\<open>res.write\<close> (lines 46 to 51).\<close>

definition res_write ::
  "platform \<Rightarrow> chunk \<Rightarrow> 'a list \<Rightarrow> request_context \<times> 'a response \<Rightarrow> request_context \<times> 'a response" where
  "res_write P c args s = (capture P c (fst s), originalWrite c args (snd s))"

text \<open>
  \<^verbatim>\<open>createLogFilename\<close> (lines 29 to 33): the name for a time \<open>t\<close> and a UUID \<open>u\<close>, and
  the function that reads the clock and draws the UUID.  \<open>dir\<close> is \<^verbatim>\<open>LOG_DIR\<close>.
\<close>

definition replace_colon_dot :: "string \<Rightarrow> string" where
  "replace_colon_dot s = map (\<lambda>c. if c = CHR '':'' \<or> c = CHR ''.'' then CHR ''-'' else c) s"

definition logFilename :: "platform \<Rightarrow> string \<Rightarrow> int \<Rightarrow> string \<Rightarrow> string" where
  "logFilename P dir t u =
     (let timestamp = replace_colon_dot (toISOString P t);
          uniqueId = take 8 u
      in path_join dir (''logs-'' @ timestamp @ ''-'' @ uniqueId @ ''.log''))"

definition createLogFilename :: "platform \<Rightarrow> string \<Rightarrow> world \<Rightarrow> string \<times> world" where
  "createLogFilename P dir w =
     (let (t, w1) = new_Date w;
          (u, w2) = uuidv4 w1
      in (logFilename P dir t u, w2))"

text \<open>
  The log entry of lines 65 to 82.  The field \<open>duration\<close> holds the number of
  milliseconds; the suffix \<^verbatim>\<open>ms\<close> of the template literal is added when the entry is
  printed.  \<open>js_or\<close> is \<^verbatim>\<open>processedResponse.json || processedResponse.text\<close>.
\<close>

record logEntry =
  ts_request :: string
  ts_response :: string
  duration :: int
  le_method :: string
  le_path :: string
  le_req_headers :: headers
  le_req_body :: "json option"
  le_statusCode :: int
  le_res_headers :: headers
  le_body :: json

definition js_or :: "json \<Rightarrow> string \<Rightarrow> json" where
  "js_or j t = (if truthy j then j else JStr t)"

fun header_json :: "header_value \<Rightarrow> json" where
  "header_json (HStr s) = JStr s"
| "header_json (HNum n) = JNum n"
| "header_json (HArr a) = JArr (map JStr a)"

definition headers_json :: "headers \<Rightarrow> json" where
  "headers_json hs = JObj (map (\<lambda>(k, v). (k, header_json v)) hs)"

text \<open>The object handed to \<^verbatim>\<open>JSON.stringify\<close>, which leaves out a property that is
  \<^verbatim>\<open>undefined\<close>.\<close>

definition logEntry_json :: "platform \<Rightarrow> logEntry \<Rightarrow> json" where
  "logEntry_json P e =
     JObj [
       (''timestamp'', JObj [
          (''request'', JStr (ts_request e)),
          (''response'', JStr (ts_response e)),
          (''duration'', JStr (String_num P (duration e) @ ''ms''))]),
       (''request'', JObj ([
          (''method'', JStr (le_method e)),
          (''path'', JStr (le_path e)),
          (''headers'', headers_json (le_req_headers e))]
          @ (case le_req_body e of None \<Rightarrow> [] | Some b \<Rightarrow> [(''body'', b)]))),
       (''response'', JObj [
          (''statusCode'', JNum (le_statusCode e)),
          (''headers'', headers_json (le_res_headers e)),
          (''body'', le_body e)])]"

text \<open>
  Lines 55 to 82 of the override of \<^verbatim>\<open>res.end\<close>: the last chunk is buffered, the
  buffer decoded and the log entry built.  The clock is read twice, once for
  \<^verbatim>\<open>responseTime\<close> (line 60) and once more for \<^verbatim>\<open>duration\<close> (line 69).
\<close>

definition end_logEntry ::
  "platform \<Rightarrow> request \<Rightarrow> chunk \<Rightarrow> request_context \<Rightarrow> 'a response \<Rightarrow> world
     \<Rightarrow> (request_context \<times> captured \<times> logEntry) \<times> world" where
  "end_logEntry P req c ctx res w =
     (let ctx1 = capture P c ctx;
          responseBuffer = concat (chunks ctx1);
          (t_response, w1) = new_Date w;
          responseTime = toISOString P t_response;
          responseHeaders = res_headers res;
          (out, processedResponse) = handleResponse P responseBuffer responseHeaders;
          w2 = console_emit out w1;
          (t_entry, w3) = new_Date w2;
          entry = \<lparr>ts_request = requestTime ctx1,
                   ts_response = responseTime,
                   duration = t_entry - requestStartTime ctx1,
                   le_method = req_method req,
                   le_path = req_path req,
                   le_req_headers = req_headers req,
                   le_req_body = requestBody ctx1,
                   le_statusCode = statusCode res,
                   le_res_headers = responseHeaders,
                   le_body = js_or (cr_json processedResponse) (cr_text processedResponse)\<rparr>
      in ((ctx1, processedResponse, entry), w3))"

text \<open>Lines 91 to 93 and the argument of \<^verbatim>\<open>console.log\<close> (lines 96 to 109).\<close>

definition outputText :: "platform \<Rightarrow> captured \<Rightarrow> string" where
  "outputText P r = (if truthy (cr_json r) then JSON_pretty P (cr_json r) else cr_text r)"

definition method_line :: "platform \<Rightarrow> json option \<Rightarrow> string" where
  "method_line P body =
     (case body of
        None \<Rightarrow> []
      | Some b \<Rightarrow>
          (if truthy b
           then (case get_prop b ''method'' of
                   None \<Rightarrow> []
                 | Some m \<Rightarrow>
                     (if truthy m
                      then ''\<newline>'' @ chalk P Green (''Method: '' @ String_json P m)
                      else []))
           else []))"

definition console_block ::
  "platform \<Rightarrow> request \<Rightarrow> request_context \<Rightarrow> int \<Rightarrow> string \<Rightarrow> int \<Rightarrow> string \<Rightarrow> string" where
  "console_block P req ctx status body t_console file =
     chalk P Blue (''['' @ requestTime ctx @ ''] '' @ req_method req @ '' '' @ req_path req)
     @ method_line P (requestBody ctx)
     @ ''\<newline>''
     @ chalk P Red (''Response status: '' @ String_num P status)
     @ ''\<newline>''
     @ chalk P Gray (''Response body: '' @ body)
     @ ''\<newline>''
     @ chalk P Yellow
         (''Duration: '' @ String_num P (t_console - requestStartTime ctx) @ ''ms'')
     @ ''\<newline>''
     @ chalk P Cyan (''Log saved to: '' @ file)"

text \<open>
  The override of \<^verbatim>\<open>res.end\<close> (lines 54 to 115).  \<^verbatim>\<open>fs.writeFileSync\<close> is not inside
  a \<^verbatim>\<open>try\<close>: when it throws, the override is left with that error (\<open>Inl\<close>) and the
  statements after it, the call of \<^verbatim>\<open>originalEnd\<close> among them, do not run.
\<close>

definition res_end ::
  "platform \<Rightarrow> string \<Rightarrow> request \<Rightarrow> chunk \<Rightarrow> 'a list \<Rightarrow> request_context \<Rightarrow> 'a response \<Rightarrow> world
     \<Rightarrow> (js_error + unit) \<times> request_context \<times> 'a response \<times> world" where
  "res_end P dir req c args ctx res w =
     (let ((ctx1, processedResponse, entry), w3) = end_logEntry P req c ctx res w;
          (file, w4) = createLogFilename P dir w3
      in (case writeFileSync file (JSON_pretty P (logEntry_json P entry)) w4 of
            Inl e \<Rightarrow> (Inl e, ctx1, res, w4)
          | Inr w5 \<Rightarrow>
              (let body = outputText P processedResponse;
                   (t_console, w6) = new_Date w5;
                   w7 = console_emit
                          [ConsoleLog (console_block P req ctx1 (statusCode res) body
                                         t_console file)] w6
               in (Inr (), ctx1, originalEnd c args res, w7))))"

section \<open>The error hook of the proxy (lines 159 to 171)\<close>

text \<open>\<^verbatim>\<open>v || null\<close> for a value that may be \<^verbatim>\<open>undefined\<close>.\<close>

fun or_null :: "json option \<Rightarrow> json" where
  "or_null None = JNull"
| "or_null (Some v) = (if truthy v then v else JNull)"

definition error_body :: "request \<Rightarrow> json" where
  "error_body req =
     JObj [(''jsonrpc'', JStr ''2.0''),
           (''error'', JObj [(''code'', JNum (- 32603)), (''message'', JStr ''Proxy error'')]),
           (''id'', or_null (opt_chain (req_body req) ''id''))]"

text \<open>
  \<^verbatim>\<open>res.end\<close> in the hook is the override above, since the middleware is installed
  before the proxy.
\<close>

definition onError ::
  "platform \<Rightarrow> string \<Rightarrow> js_error \<Rightarrow> request \<Rightarrow> request_context \<Rightarrow> 'a response \<Rightarrow> world
     \<Rightarrow> (js_error + unit) \<times> request_context \<times> 'a response \<times> world" where
  "onError P dir err req ctx res w =
     (let w1 = console_emit [ConsoleError ''Proxy error:'' err] w
      in if \<not> headersSent res
         then res_end P dir req (Str (JSON_stringify P (error_body req))) [] ctx
                (writeHead 500 [(''Content-Type'', HStr ''application/json'')] res) w1
         else (Inr (), ctx, res, w1))"

text \<open>
  One request-response cycle: the middleware runs, the proxy writes the chunks of
  \<open>ws\<close> through \<^verbatim>\<open>res.write\<close> and finishes with one call of \<^verbatim>\<open>res.end\<close>.
\<close>

definition res_writes ::
  "platform \<Rightarrow> (chunk \<times> 'a list) list \<Rightarrow> request_context \<times> 'a response \<Rightarrow> request_context \<times> 'a response" where
  "res_writes P ws s = fold (\<lambda>(c, args). res_write P c args) ws s"

definition cycle ::
  "platform \<Rightarrow> string \<Rightarrow> request \<Rightarrow> (chunk \<times> 'a list) list \<Rightarrow> chunk \<Rightarrow> 'a list
     \<Rightarrow> 'a response \<Rightarrow> world \<Rightarrow> (js_error + unit) \<times> request_context \<times> 'a response \<times> world" where
  "cycle P dir req ws c args res w =
     (let (ctx, w1) = middleware P req w;
          (ctx2, res2) = res_writes P ws (ctx, res)
      in res_end P dir req c args ctx2 res2 w1)"

text \<open>The four components of what \<^verbatim>\<open>res.end\<close>, the error hook and a cycle return.\<close>

abbreviation outcome :: "'r \<times> 'c \<times> 'p \<times> 'w \<Rightarrow> 'r" where
  "outcome r \<equiv> fst r"

abbreviation ctx_of :: "'r \<times> 'c \<times> 'p \<times> 'w \<Rightarrow> 'c" where
  "ctx_of r \<equiv> fst (snd r)"

abbreviation res_of :: "'r \<times> 'c \<times> 'p \<times> 'w \<Rightarrow> 'p" where
  "res_of r \<equiv> fst (snd (snd r))"

abbreviation world_of :: "'r \<times> 'c \<times> 'p \<times> 'w \<Rightarrow> 'w" where
  "world_of r \<equiv> snd (snd (snd r))"

text \<open>
  The log entry that the cycle builds, and the bytes that the override buffers for a
  chunk (none for a falsy chunk).
\<close>

definition cycle_logEntry ::
  "platform \<Rightarrow> request \<Rightarrow> (chunk \<times> 'a list) list \<Rightarrow> chunk \<Rightarrow> 'a response \<Rightarrow> world
     \<Rightarrow> logEntry" where
  "cycle_logEntry P req ws c res w =
     (let (ctx, w1) = middleware P req w;
          (ctx2, res2) = res_writes P ws (ctx, res)
      in snd (snd (fst (end_logEntry P req c ctx2 res2 w1))))"

fun chunk_bytes :: "platform \<Rightarrow> chunk \<Rightarrow> buffer" where
  "chunk_bytes P Undefined = []"
| "chunk_bytes P (Str s) = (if s \<noteq> [] then Buffer_from P s else [])"
| "chunk_bytes P (Buf b) = b"

fun is_log :: "console_event \<Rightarrow> bool" where
  "is_log (ConsoleLog s) = True"
| "is_log (ConsoleError s e) = False"

section \<open>A platform to run the model on\<close>

text \<open>
  The theorems below hold for every platform.  To run the model on concrete inputs,
  \<open>test_platform\<close> gives one: strings are ASCII (where UTF-8 is one byte per
  character), dates lie in the years 0000 to 9999, colours are switched off (as
  chalk does when the output is not a terminal), and zlib and the JSON parser are the
  tables of their results on the buffers and texts that the examples use.
\<close>

definition ascii_toString :: "buffer \<Rightarrow> string" where
  "ascii_toString b = map (\<lambda>x. char_of (unat x)) b"

definition ascii_bytes :: "string \<Rightarrow> buffer" where
  "ascii_bytes s = map (\<lambda>c. of_char c) s"

definition digit :: "int \<Rightarrow> char" where
  "digit n = char_of (48 + n mod 10)"

function dec_pos :: "int \<Rightarrow> string" where
  "dec_pos n = (if n < 10 then [digit n] else dec_pos (n div 10) @ [digit n])"
  by pat_completeness auto
termination
  by (relation "measure nat") auto

declare dec_pos.simps [simp del]

definition dec_int :: "int \<Rightarrow> string" where
  "dec_int i = (if i < 0 then ''-'' @ dec_pos (- i) else dec_pos i)"

definition pad2 :: "int \<Rightarrow> string" where
  "pad2 n = [digit (n div 10), digit n]"

definition pad3 :: "int \<Rightarrow> string" where
  "pad3 n = [digit (n div 100), digit (n div 10), digit n]"

definition pad4 :: "int \<Rightarrow> string" where
  "pad4 n = [digit (n div 1000), digit (n div 100), digit (n div 10), digit n]"

text \<open>The calendar date of a day counted from 1 January 1970.\<close>

definition iso_date :: "int \<Rightarrow> string" where
  "iso_date days =
     (let z = days + 719468;
          era = z div 146097;
          doe = z mod 146097;
          yoe = (doe - doe div 1460 + doe div 36524 - doe div 146096) div 365;
          doy = doe - (365 * yoe + yoe div 4 - yoe div 100);
          mp = (5 * doy + 2) div 153;
          d = doy - (153 * mp + 2) div 5 + 1;
          m = (if mp < 10 then mp + 3 else mp - 9);
          y = yoe + era * 400 + (if m \<le> 2 then 1 else 0)
      in pad4 y @ ''-'' @ pad2 m @ ''-'' @ pad2 d)"

definition iso_string :: "int \<Rightarrow> string" where
  "iso_string t =
     (let ms = t mod 86400000
      in iso_date (t div 86400000) @ ''T'' @ pad2 (ms div 3600000) @ '':''
         @ pad2 (ms div 60000 mod 60) @ '':'' @ pad2 (ms div 1000 mod 60) @ ''.''
         @ pad3 (ms mod 1000) @ ''Z'')"

text \<open>JSON text of a value whose strings are printable ASCII.\<close>

fun quote_chars :: "string \<Rightarrow> string" where
  "quote_chars [] = []"
| "quote_chars (c # cs) =
     (if c = CHR 0x22 then [CHR 0x5C, CHR 0x22]
      else if c = CHR 0x5C then [CHR 0x5C, CHR 0x5C]
      else [c]) @ quote_chars cs"

definition quote :: "string \<Rightarrow> string" where
  "quote s = [CHR 0x22] @ quote_chars s @ [CHR 0x22]"

fun join :: "string \<Rightarrow> string list \<Rightarrow> string" where
  "join sep [] = []"
| "join sep [x] = x"
| "join sep (x # y # ys) = x @ sep @ join sep (y # ys)"

fun stringify :: "json \<Rightarrow> string" where
  "stringify JNull = ''null''"
| "stringify (JBool b) = (if b then ''true'' else ''false'')"
| "stringify (JNum n) = dec_int n"
| "stringify (JStr s) = quote s"
| "stringify (JArr xs) = ''['' @ join '','' (map stringify xs) @ '']''"
| "stringify (JObj kvs) =
     ''{'' @ join '','' (map (\<lambda>(k, v). quote k @ '':'' @ stringify v) kvs) @ ''}''"

definition indent :: "nat \<Rightarrow> string" where
  "indent d = replicate (2 * d) CHR '' ''"

fun pretty :: "nat \<Rightarrow> json \<Rightarrow> string" where
  "pretty d JNull = ''null''"
| "pretty d (JBool b) = (if b then ''true'' else ''false'')"
| "pretty d (JNum n) = dec_int n"
| "pretty d (JStr s) = quote s"
| "pretty d (JArr xs) =
     (if xs = [] then ''[]''
      else ''['' @ [CHR 0x0A]
           @ join ('','' @ [CHR 0x0A]) (map (\<lambda>x. indent (Suc d) @ pretty (Suc d) x) xs)
           @ [CHR 0x0A] @ indent d @ '']'')"
| "pretty d (JObj kvs) =
     (if kvs = [] then ''{}''
      else ''{'' @ [CHR 0x0A]
           @ join ('','' @ [CHR 0x0A])
               (map (\<lambda>(k, v). indent (Suc d) @ quote k @ '': '' @ pretty (Suc d) v) kvs)
           @ [CHR 0x0A] @ indent d @ ''}'')"

text \<open>\<^verbatim>\<open>String(v)\<close>, as a template literal converts a value.\<close>

fun to_String :: "json \<Rightarrow> string" where
  "to_String JNull = ''null''"
| "to_String (JBool b) = (if b then ''true'' else ''false'')"
| "to_String (JNum n) = dec_int n"
| "to_String (JStr s) = s"
| "to_String (JArr xs) = join '','' (map (\<lambda>x. if x = JNull then [] else to_String x) xs)"
| "to_String (JObj kvs) = ''[object Object]''"

text \<open>
  The gzip stream of the two bytes \<^verbatim>\<open>{}\<close> (header, one fixed-Huffman block, CRC-32 and
  length), the only gzip stream among the buffers of the examples.
\<close>

definition gzip_braces :: buffer where
  "gzip_braces =
     [0x1f, 0x8b, 0x08, 0x00, 0x00, 0x00, 0x00, 0x00, 0x02, 0x03, 0xab,
      0xae, 0x05, 0x00, 0x43, 0xbf, 0xa6, 0xa3, 0x02, 0x00, 0x00, 0x00]"

definition gunzip_table :: "buffer \<Rightarrow> buffer option" where
  "gunzip_table b = (if b = gzip_braces then Some (ascii_bytes ''{}'') else None)"

text \<open>The JSON texts among the texts of the examples, with their values.\<close>

definition parse_table :: "string \<Rightarrow> json option" where
  "parse_table s =
     map_of [(''{}'', JObj []), (''null'', JNull), (''0'', JNum 0), (''false'', JBool False),
             (''{\"result\":\"0x10\"}'', JObj [(''result'', JStr ''0x10'')])] s"

definition test_platform :: platform where
  "test_platform =
     \<lparr>gunzipSync = gunzip_table,
      toString_utf8 = ascii_toString,
      Buffer_from = ascii_bytes,
      JSON_parse = parse_table,
      JSON_stringify = stringify,
      JSON_pretty = pretty 0,
      toISOString = iso_string,
      String_num = dec_int,
      String_json = to_String,
      chalk = (\<lambda>c s. s)\<rparr>"

text \<open>
  A world for the examples: the clock starts on 14 November 2023, 22:13:20 UTC and
  advances by five milliseconds from one reading to the next, the file system is
  empty and accepts every write, and the first two UUIDs drawn differ after their
  first eight digits.  \<open>broken_disk\<close> is the same world with a file system that
  refuses every write.
\<close>

definition test_world :: world where
  "test_world =
     \<lparr>now_ms = (\<lambda>i. 1700000000000 + 5 * int i),
      clock_reads = 0,
      uuid_gen = (\<lambda>i. if i = 0 then ''1b9d6bcd-bbfd-4b2d-9b5d-ab8dfbbd4bed''
                       else ''1b9d6bcd-3c4e-4f5a-8b6c-7d8e9f0a1b2c''),
      uuid_calls = 0,
      write_fails = (\<lambda>file. False),
      fs = Map.empty,
      console = []\<rparr>"

definition broken_disk :: world where
  "broken_disk = test_world\<lparr>write_fails := (\<lambda>file. True)\<rparr>"

text \<open>A world whose clock stands still, for requests within one millisecond.\<close>

definition same_ms_world :: world where
  "same_ms_world = test_world\<lparr>now_ms := (\<lambda>i. 1700000000000)\<rparr>"

definition test_request :: "json option \<Rightarrow> request" where
  "test_request body =
     \<lparr>req_method = ''POST'', req_path = ''/'',
      req_headers = [(''content-type'', HStr ''application/json'')],
      req_body = body\<rparr>"

definition fresh_response :: "headers \<Rightarrow> unit response" where
  "fresh_response hs = \<lparr>statusCode = 200, res_headers = hs, headersSent = False, sink = []\<rparr>"

section \<open>Properties of \<^verbatim>\<open>handleResponse\<close>\<close>

text \<open>The two \<^verbatim>\<open>try\<close> blocks, flattened.\<close>

lemma handleResponse_unfold:
  "handleResponse P buf hs =
     (case contentEncoding hs of
        Inl e \<Rightarrow> ([ConsoleError (chalk P Red ''Error processing response'') e],
                  \<lparr>cr_text = ''Error processing response'', cr_json = JNull\<rparr>)
      | Inr enc \<Rightarrow> (fst (decompress P enc buf),
                    parse_body P (toString_utf8 P (snd (decompress P enc buf)))))"
  by (simp add: handleResponse_def handleResponse_try_def split_def Let_def split: sum.splits)

lemma handleResponse_try_unfold:
  "snd (handleResponse_try P buf hs) =
     (case contentEncoding hs of
        Inl e \<Rightarrow> Inl e
      | Inr enc \<Rightarrow> Inr (parse_body P (toString_utf8 P (snd (decompress P enc buf)))))"
  by (simp add: handleResponse_try_def split_def Let_def split: sum.splits)

text \<open>
  Claim C1, as amended.  \<^verbatim>\<open>handleResponse\<close> always returns a value to its caller, and
  the only thing it does besides is to write at most one message to the error
  console.  When reading the \<^verbatim>\<open>content-encoding\<close> header fails (its value is a number
  or an array), the failure is logged and the result is exactly
  \<^verbatim>\<open>{text: "Error processing response", json: null}\<close>.  A failure of the gzip
  decompression is logged as a warning and recovered: the raw bytes are decoded and
  parsed.  In every other case nothing is written and the decoded body is parsed.
\<close>

theorem handleResponse_failure_modes:
  "(case map_of hs ''content-encoding'' of
      None \<Rightarrow> handleResponse P buf hs = ([], parse_body P (toString_utf8 P buf))
    | Some (HStr s) \<Rightarrow>
        (if toLowerCase s = ''gzip''
         then (case gunzipSync P buf of
                 Some d \<Rightarrow> handleResponse P buf hs = ([], parse_body P (toString_utf8 P d))
               | None \<Rightarrow>
                   handleResponse P buf hs =
                     ([ConsoleError (chalk P Yellow ''Failed to decompress gzipped response'')
                         ZlibError],
                      parse_body P (toString_utf8 P buf)))
         else handleResponse P buf hs = ([], parse_body P (toString_utf8 P buf)))
    | Some (HNum n) \<Rightarrow>
        handleResponse P buf hs =
          ([ConsoleError (chalk P Red ''Error processing response'') TypeError],
           \<lparr>cr_text = ''Error processing response'', cr_json = JNull\<rparr>)
    | Some (HArr a) \<Rightarrow>
        handleResponse P buf hs =
          ([ConsoleError (chalk P Red ''Error processing response'') TypeError],
           \<lparr>cr_text = ''Error processing response'', cr_json = JNull\<rparr>))"
  by (simp add: handleResponse_unfold contentEncoding_def decompress_def
      split: option.splits header_value.splits)

text \<open>C1, the amended claim run on a response whose \<^verbatim>\<open>content-encoding\<close> is a number.\<close>

theorem handleResponse_failure_modes_witness:
  "handleResponse test_platform (ascii_bytes ''{}'') [(''content-encoding'', HNum 3)] =
     ([ConsoleError ''Error processing response'' TypeError],
      \<lparr>cr_text = ''Error processing response'', cr_json = JNull\<rparr>)"
  using handleResponse_failure_modes
    [where hs = "[(''content-encoding'', HNum 3)]" and P = test_platform
       and buf = "ascii_bytes ''{}''"]
  by (simp add: test_platform_def)

text \<open>
  C1 as stated fails: for the five bytes \<^verbatim>\<open>hello\<close> sent with
  \<^verbatim>\<open>content-encoding: gzip\<close>, the decompression fails inside \<^verbatim>\<open>handleResponse\<close>, which
  writes to the console (so it is not free of I/O) and returns the text \<^verbatim>\<open>hello\<close>,
  not \<^verbatim>\<open>Error processing response\<close>.
\<close>

theorem handleResponse_logs_gzip_failure:
  "handleResponse test_platform (ascii_bytes ''hello'') [(''content-encoding'', HStr ''gzip'')] =
     ([ConsoleError ''Failed to decompress gzipped response'' ZlibError],
      \<lparr>cr_text = ''hello'', cr_json = JNull\<rparr>)"
  by code_simp

text \<open>
  Claim C2.  When the \<^verbatim>\<open>content-encoding\<close> header is a string that equals \<^verbatim>\<open>gzip\<close>
  up to the case of its letters: if the buffer decompresses, the text is the UTF-8
  decoding of the decompressed bytes and nothing is logged; if the decompression
  fails, one warning is logged and the text is the decoding of the bytes as they
  came.  In both cases the body of the outer \<^verbatim>\<open>try\<close> returns normally.
\<close>

theorem handleResponse_gzip:
  assumes "map_of hs ''content-encoding'' = Some (HStr v)"
    and "toLowerCase v = ''gzip''"
  shows "cr_text (snd (handleResponse P buf hs)) =
           toString_utf8 P (case gunzipSync P buf of Some d \<Rightarrow> d | None \<Rightarrow> buf)
         \<and> fst (handleResponse P buf hs) =
           (case gunzipSync P buf of
              Some d \<Rightarrow> []
            | None \<Rightarrow> [ConsoleError (chalk P Yellow ''Failed to decompress gzipped response'')
                         ZlibError])
         \<and> snd (handleResponse_try P buf hs) = Inr (snd (handleResponse P buf hs))"
  using assms
  by (simp add: handleResponse_unfold handleResponse_try_unfold contentEncoding_def
      decompress_def parse_body_def split: option.splits)

text \<open>C2 on the gzip stream of \<^verbatim>\<open>{}\<close> and on six bytes that are not a gzip stream.\<close>

theorem handleResponse_gzip_witness:
  "map_of [(''content-encoding'', HStr ''GZip'')] ''content-encoding'' = Some (HStr ''GZip'')
   \<and> toLowerCase ''GZip'' = ''gzip''
   \<and> cr_text (snd (handleResponse test_platform gzip_braces
                      [(''content-encoding'', HStr ''GZip'')])) = ''{}''
   \<and> fst (handleResponse test_platform gzip_braces [(''content-encoding'', HStr ''GZip'')]) = []
   \<and> cr_text (snd (handleResponse test_platform (ascii_bytes ''<html>'')
                      [(''content-encoding'', HStr ''GZip'')])) = ''<html>''
   \<and> fst (handleResponse test_platform (ascii_bytes ''<html>'')
            [(''content-encoding'', HStr ''GZip'')]) =
         [ConsoleError ''Failed to decompress gzipped response'' ZlibError]"
proof -
  have h1: "map_of [(''content-encoding'', HStr ''GZip'')] ''content-encoding'' =
              Some (HStr ''GZip'')"
    by simp
  have h2: "toLowerCase ''GZip'' = ''gzip''"
    by code_simp
  have g1: "gunzipSync test_platform gzip_braces = Some (ascii_bytes ''{}'')"
    by (simp add: test_platform_def gunzip_table_def)
  have g2: "gunzipSync test_platform (ascii_bytes ''<html>'') = None"
    by code_simp
  have t1: "toString_utf8 test_platform (ascii_bytes ''{}'') = ''{}''"
    by code_simp
  have t2: "toString_utf8 test_platform (ascii_bytes ''<html>'') = ''<html>''"
    by code_simp
  have c: "chalk test_platform Yellow ''Failed to decompress gzipped response'' =
             ''Failed to decompress gzipped response''"
    by (simp add: test_platform_def)
  show ?thesis
    using handleResponse_gzip [OF h1 h2, of test_platform gzip_braces]
      handleResponse_gzip [OF h1 h2, of test_platform "ascii_bytes ''<html>''"]
    by (simp add: h1 h2 g1 g2 t1 t2 c)
qed

text \<open>
  C3 as stated fails: the body \<^verbatim>\<open>null\<close> is valid JSON, and the \<^verbatim>\<open>json\<close> field of the
  result is \<^verbatim>\<open>null\<close>, the same marker of absence that the body \<^verbatim>\<open>hello\<close>, which is not
  JSON, gets.
\<close>

theorem handleResponse_null_text:
  "JSON_parse test_platform ''null'' = Some JNull
   \<and> handleResponse test_platform (ascii_bytes ''null'') [] =
       ([], \<lparr>cr_text = ''null'', cr_json = JNull\<rparr>)
   \<and> handleResponse test_platform (ascii_bytes ''hello'') [] =
       ([], \<lparr>cr_text = ''hello'', cr_json = JNull\<rparr>)"
  by code_simp

text \<open>
  Claim C3, as amended.  For every response whose \<^verbatim>\<open>content-encoding\<close> is absent or a
  string, \<^verbatim>\<open>text\<close> is the whole decoded body; \<^verbatim>\<open>json\<close> is the parsed value when the
  text is valid JSON and \<^verbatim>\<open>null\<close> when it is not, so it differs from the marker of
  absence exactly when the text is valid JSON other than the literal \<^verbatim>\<open>null\<close>; and a
  parse failure writes nothing to the console.
\<close>

theorem handleResponse_json_field:
  assumes "contentEncoding hs = Inr enc"
  shows "cr_text (snd (handleResponse P buf hs)) = toString_utf8 P (snd (decompress P enc buf))
         \<and> cr_json (snd (handleResponse P buf hs)) =
           (case JSON_parse P (cr_text (snd (handleResponse P buf hs))) of
              Some v \<Rightarrow> v
            | None \<Rightarrow> JNull)
         \<and> (cr_json (snd (handleResponse P buf hs)) \<noteq> JNull) =
           (\<exists>v. JSON_parse P (cr_text (snd (handleResponse P buf hs))) = Some v \<and> v \<noteq> JNull)
         \<and> fst (handleResponse P buf hs) = fst (decompress P enc buf)"
  using assms
  by (simp add: handleResponse_unfold parse_body_def split: option.splits)

text \<open>C3, the amended claim on a JSON-RPC result sent without \<^verbatim>\<open>content-encoding\<close>.\<close>

theorem handleResponse_json_field_witness:
  "contentEncoding [] = Inr None
   \<and> cr_text (snd (handleResponse test_platform (ascii_bytes ''{\"result\":\"0x10\"}'') [])) =
       ''{\"result\":\"0x10\"}''
   \<and> cr_json (snd (handleResponse test_platform (ascii_bytes ''{\"result\":\"0x10\"}'') [])) =
       JObj [(''result'', JStr ''0x10'')]
   \<and> fst (handleResponse test_platform (ascii_bytes ''{\"result\":\"0x10\"}'') []) = []"
proof -
  have h: "contentEncoding [] = Inr None"
    by (simp add: contentEncoding_def)
  have d: "decompress test_platform None (ascii_bytes ''{\"result\":\"0x10\"}'') =
             ([], ascii_bytes ''{\"result\":\"0x10\"}'')"
    by (simp add: decompress_def)
  have t: "toString_utf8 test_platform (ascii_bytes ''{\"result\":\"0x10\"}'') =
             ''{\"result\":\"0x10\"}''"
    by code_simp
  have p: "JSON_parse test_platform ''{\"result\":\"0x10\"}'' =
             Some (JObj [(''result'', JStr ''0x10'')])"
    by code_simp
  show ?thesis
    using handleResponse_json_field [OF h, of test_platform "ascii_bytes ''{\"result\":\"0x10\"}''"]
    by (simp add: h d t p)
qed

section \<open>Properties of the logging middleware\<close>

text \<open>
  What a sequence of calls of \<^verbatim>\<open>res.write\<close> does: every truthy chunk is buffered, in
  the order of the calls, every call reaches \<^verbatim>\<open>originalWrite\<close> with its arguments, and
  nothing else changes.
\<close>

lemma capture_frame:
  "requestStartTime (capture P c ctx) = requestStartTime ctx"
  "requestTime (capture P c ctx) = requestTime ctx"
  "requestBody (capture P c ctx) = requestBody ctx"
  "concat (chunks (capture P c ctx)) = concat (chunks ctx) @ chunk_bytes P c"
  by (cases c; simp)+

lemma res_writes_chunks:
  "concat (chunks (fst (res_writes P ws (ctx, res)))) =
     concat (chunks ctx) @ concat (map (chunk_bytes P) (map fst ws))"
  unfolding res_writes_def
  by (induction ws arbitrary: ctx res) (auto simp: res_write_def capture_frame)

lemma res_writes_sink:
  "sink (snd (res_writes P ws (ctx, res))) = sink res @ map (\<lambda>(c, args). Write c args) ws"
  unfolding res_writes_def
  by (induction ws arbitrary: ctx res) (auto simp: res_write_def originalWrite_def)

lemma res_writes_frame:
  "requestStartTime (fst (res_writes P ws (ctx, res))) = requestStartTime ctx"
  "requestTime (fst (res_writes P ws (ctx, res))) = requestTime ctx"
  "requestBody (fst (res_writes P ws (ctx, res))) = requestBody ctx"
  "statusCode (snd (res_writes P ws (ctx, res))) = statusCode res"
  "res_headers (snd (res_writes P ws (ctx, res))) = res_headers res"
  unfolding res_writes_def
  by (induction ws arbitrary: ctx res;
      simp add: res_write_def capture_frame originalWrite_def split_def)+

text \<open>\<^verbatim>\<open>handleResponse\<close> writes to the error console only.\<close>

lemma handleResponse_no_log: "filter is_log (fst (handleResponse P buf hs)) = []"
  by (simp add: handleResponse_unfold decompress_def split: sum.splits option.splits)

text \<open>The first part of \<^verbatim>\<open>res.end\<close>, and \<^verbatim>\<open>res.end\<close> as a whole, on any input.\<close>

lemma end_logEntry_world:
  "snd (end_logEntry P req c ctx res w) =
     w\<lparr>clock_reads := clock_reads w + 2,
       console := console w @
         fst (handleResponse P (concat (chunks (capture P c ctx))) (res_headers res))\<rparr>"
  by (simp add: end_logEntry_def new_Date_def console_emit_def Let_def split_def numeral_2_eq_2)

lemma end_logEntry_ctx:
  "fst (fst (end_logEntry P req c ctx res w)) = capture P c ctx"
  by (simp add: end_logEntry_def Let_def split_def)

lemma end_logEntry_processed:
  "fst (snd (fst (end_logEntry P req c ctx res w))) =
     snd (handleResponse P (concat (chunks (capture P c ctx))) (res_headers res))"
  by (simp add: end_logEntry_def Let_def split_def)

lemma res_end_unfold:
  fixes res :: "'a response"
  shows "res_end P dir req c args ctx res w =
     (let e = end_logEntry P req c ctx res w;
          w3 = snd e;
          file = logFilename P dir (now_ms w (clock_reads w + 2)) (uuid_gen w (uuid_calls w));
          w4 = w3\<lparr>clock_reads := clock_reads w + 3, uuid_calls := Suc (uuid_calls w)\<rparr>
      in if write_fails w file then (Inl FsError, capture P c ctx, res, w4)
         else (Inr (), capture P c ctx, originalEnd c args res,
               w4\<lparr>clock_reads := clock_reads w + 4,
                   fs := (fs w)(file \<mapsto> JSON_pretty P (logEntry_json P (snd (snd (fst e))))),
                   console := console w3 @
                     [ConsoleLog (console_block P req (capture P c ctx) (statusCode res)
                        (outputText P (fst (snd (fst e))))
                        (now_ms w (clock_reads w + 3)) file)]\<rparr>))"
  by (simp add: res_end_def createLogFilename_def writeFileSync_def new_Date_def uuidv4_def
      console_emit_def Let_def split_def end_logEntry_world end_logEntry_ctx
      eval_nat_numeral)

text \<open>
  A whole cycle.  The buffer that \<^verbatim>\<open>res.end\<close> decodes holds the bytes of all the chunks
  of the cycle, the final one included, in the order in which they were written.
\<close>

lemma middleware_unfold:
  "middleware P req w =
     (\<lparr>requestStartTime = now_ms w (clock_reads w),
       requestTime = toISOString P (now_ms w (clock_reads w)),
       requestBody = req_body req, chunks = []\<rparr>,
      w\<lparr>clock_reads := Suc (clock_reads w)\<rparr>)"
  by (simp add: middleware_def new_Date_def)

lemma middleware_fields:
  "requestStartTime (fst (middleware P req w)) = now_ms w (clock_reads w)"
  "requestTime (fst (middleware P req w)) = toISOString P (now_ms w (clock_reads w))"
  "requestBody (fst (middleware P req w)) = req_body req"
  "chunks (fst (middleware P req w)) = []"
  "snd (middleware P req w) = w\<lparr>clock_reads := Suc (clock_reads w)\<rparr>"
  by (simp_all add: middleware_unfold)

lemma cycle_unfold:
  fixes res :: "'a response"
  shows "cycle P dir req ws c args res w =
     res_end P dir req c args
       (fst (res_writes P ws (fst (middleware P req w), res)))
       (snd (res_writes P ws (fst (middleware P req w), res)))
       (w\<lparr>clock_reads := Suc (clock_reads w)\<rparr>)"
  by (simp add: cycle_def split_def Let_def middleware_fields)

lemma cycle_buffer:
  fixes res :: "'a response"
  shows "concat (chunks (capture P c (fst (res_writes P ws (fst (middleware P req w), res))))) =
           concat (map (chunk_bytes P) (map fst ws @ [c]))"
  by (simp add: middleware_fields capture_frame res_writes_chunks)

lemma cycle_chunks:
  fixes res :: "'a response"
  shows "concat (chunks (ctx_of (cycle P dir req ws c args res w))) =
           concat (map (chunk_bytes P) (map fst ws @ [c]))"
  using cycle_buffer [of P c ws req w res]
  by (simp add: cycle_unfold res_end_unfold Let_def)

text \<open>
  When the log file can be written, the underlying stream receives exactly the calls
  that the proxy made, with their arguments and in their order.
\<close>

lemma cycle_transparent:
  fixes res :: "'a response"
  assumes "\<not> write_fails w
             (logFilename P dir (now_ms w (clock_reads w + 3)) (uuid_gen w (uuid_calls w)))"
  shows "outcome (cycle P dir req ws c args res w) = Inr ()"
    and "sink (res_of (cycle P dir req ws c args res w)) =
           sink res @ map (\<lambda>(c, args). Write c args) ws @ [End c args]"
  using assms
  by (simp_all add: cycle_unfold res_end_unfold Let_def res_writes_sink
      originalEnd_def eval_nat_numeral)

text \<open>
  When \<^verbatim>\<open>fs.writeFileSync\<close> throws, \<^verbatim>\<open>res.end\<close> throws as well: \<^verbatim>\<open>originalEnd\<close> is not
  called, no file is written and no block is printed.
\<close>

lemma cycle_write_error:
  fixes res :: "'a response"
  assumes "write_fails w
             (logFilename P dir (now_ms w (clock_reads w + 3)) (uuid_gen w (uuid_calls w)))"
  shows "outcome (cycle P dir req ws c args res w) = Inl FsError"
    and "sink (res_of (cycle P dir req ws c args res w)) =
           sink res @ map (\<lambda>(c, args). Write c args) ws"
    and "fs (world_of (cycle P dir req ws c args res w)) = fs w"
    and "filter is_log (console (world_of (cycle P dir req ws c args res w))) =
           filter is_log (console w)"
  using assms
  by (simp_all add: cycle_unfold res_end_unfold Let_def res_writes_sink
      end_logEntry_world handleResponse_no_log eval_nat_numeral)

text \<open>
  Claim C4 (the interception does not alter what the client receives) fails on the
  code when the log file cannot be written.  The proxy writes \<^verbatim>\<open>he\<close> and ends the
  response with \<^verbatim>\<open>llo\<close>; the override buffers the five bytes \<^verbatim>\<open>hello\<close>, but the
  underlying stream is handed only the write of \<^verbatim>\<open>he\<close>: the final chunk and the end
  of the stream never reach it.
\<close>

theorem cycle_broken_disk_client:
  "outcome (cycle test_platform ''/app/logs'' (test_request None)
              [(Buf (ascii_bytes ''he''), [])] (Buf (ascii_bytes ''llo'')) []
              (fresh_response []) broken_disk) = Inl FsError
   \<and> sink (res_of (cycle test_platform ''/app/logs'' (test_request None)
              [(Buf (ascii_bytes ''he''), [])] (Buf (ascii_bytes ''llo'')) []
              (fresh_response []) broken_disk)) = [Write (Buf (ascii_bytes ''he'')) []]
   \<and> concat (chunks (ctx_of (cycle test_platform ''/app/logs'' (test_request None)
              [(Buf (ascii_bytes ''he''), [])] (Buf (ascii_bytes ''llo'')) []
              (fresh_response []) broken_disk))) = ascii_bytes ''hello''"
proof -
  have f: "write_fails broken_disk p" for p
    by (simp add: broken_disk_def)
  show ?thesis
    by (simp add: cycle_write_error [OF f] cycle_chunks fresh_response_def ascii_bytes_def)
qed

text \<open>
  Claim C5 (a failure of logging never affects the response) fails on the code: with
  a file system that refuses the write, \<^verbatim>\<open>res.end("{}")\<close> leaves with the error of
  \<^verbatim>\<open>fs.writeFileSync\<close> and the response object is as it was before the call, with no
  call of \<^verbatim>\<open>originalEnd\<close> and no header sent.
\<close>

theorem res_end_broken_disk:
  "outcome (res_end test_platform ''/app/logs'' (test_request None) (Str ''{}'') []
              (fst (middleware test_platform (test_request None) broken_disk))
              (fresh_response [])
              (snd (middleware test_platform (test_request None) broken_disk))) = Inl FsError
   \<and> res_of (res_end test_platform ''/app/logs'' (test_request None) (Str ''{}'') []
              (fst (middleware test_platform (test_request None) broken_disk))
              (fresh_response [])
              (snd (middleware test_platform (test_request None) broken_disk))) =
       \<lparr>statusCode = 200, res_headers = [], headersSent = False, sink = []\<rparr>"
proof -
  have f: "write_fails (snd (middleware test_platform (test_request None) broken_disk)) p"
    for p
    by (simp add: middleware_unfold broken_disk_def)
  show ?thesis
    by (simp add: res_end_unfold Let_def f fresh_response_def)
qed

text \<open>The log entry of a call of \<^verbatim>\<open>res.end\<close> and of a cycle, field by field.\<close>

lemma end_logEntry_entry:
  fixes res :: "'a response"
  shows "snd (snd (fst (end_logEntry P req c ctx res w))) =
     (let r = snd (handleResponse P (concat (chunks (capture P c ctx))) (res_headers res))
      in \<lparr>ts_request = requestTime ctx,
          ts_response = toISOString P (now_ms w (clock_reads w)),
          duration = now_ms w (Suc (clock_reads w)) - requestStartTime ctx,
          le_method = req_method req,
          le_path = req_path req,
          le_req_headers = req_headers req,
          le_req_body = requestBody ctx,
          le_statusCode = statusCode res,
          le_res_headers = res_headers res,
          le_body = js_or (cr_json r) (cr_text r)\<rparr>)"
  by (simp add: end_logEntry_def new_Date_def console_emit_def Let_def split_def capture_frame)

lemma cycle_entry_written:
  fixes res :: "'a response"
  shows "snd (snd (fst (end_logEntry P req c
            (fst (res_writes P ws (fst (middleware P req w), res)))
            (snd (res_writes P ws (fst (middleware P req w), res)))
            (w\<lparr>clock_reads := Suc (clock_reads w)\<rparr>)))) = cycle_logEntry P req ws c res w"
  by (simp add: cycle_logEntry_def split_def Let_def middleware_fields)

lemma cycle_logEntry_unfold:
  fixes res :: "'a response"
  shows "cycle_logEntry P req ws c res w =
     (let r = snd (handleResponse P (concat (map (chunk_bytes P) (map fst ws @ [c])))
                     (res_headers res))
      in \<lparr>ts_request = toISOString P (now_ms w (clock_reads w)),
          ts_response = toISOString P (now_ms w (clock_reads w + 1)),
          duration = now_ms w (clock_reads w + 2) - now_ms w (clock_reads w),
          le_method = req_method req,
          le_path = req_path req,
          le_req_headers = req_headers req,
          le_req_body = req_body req,
          le_statusCode = statusCode res,
          le_res_headers = res_headers res,
          le_body = js_or (cr_json r) (cr_text r)\<rparr>)"
  unfolding cycle_entry_written [symmetric] end_logEntry_entry cycle_buffer
  by (simp add: res_writes_frame middleware_fields Let_def)

text \<open>
  Claim C6, as amended.  In every request-response cycle (any writes, then one call of
  \<^verbatim>\<open>res.end\<close>) in which the write of the log file does not throw, whatever the chunks,
  the headers and the body are: one log entry is built, by \<^verbatim>\<open>res.end\<close> and from all
  the chunks of the cycle; exactly one file is written, under the generated name and
  holding that entry; and exactly one block is printed with \<^verbatim>\<open>console.log\<close>.
\<close>

theorem cycle_one_log:
  fixes res :: "'a response"
  assumes "\<not> write_fails w
             (logFilename P dir (now_ms w (clock_reads w + 3)) (uuid_gen w (uuid_calls w)))"
  shows "outcome (cycle P dir req ws c args res w) = Inr ()
     \<and> fs (world_of (cycle P dir req ws c args res w)) =
         (fs w)(logFilename P dir (now_ms w (clock_reads w + 3)) (uuid_gen w (uuid_calls w))
                  \<mapsto> JSON_pretty P (logEntry_json P (cycle_logEntry P req ws c res w)))
     \<and> filter is_log (console (world_of (cycle P dir req ws c args res w))) =
         filter is_log (console w) @
           [ConsoleLog
              (console_block P req (ctx_of (cycle P dir req ws c args res w)) (statusCode res)
                 (outputText P
                    (snd (handleResponse P (concat (map (chunk_bytes P) (map fst ws @ [c])))
                            (res_headers res))))
                 (now_ms w (clock_reads w + 4))
                 (logFilename P dir (now_ms w (clock_reads w + 3))
                    (uuid_gen w (uuid_calls w))))]"
  using assms
  unfolding cycle_unfold res_end_unfold Let_def cycle_entry_written end_logEntry_world
    end_logEntry_processed cycle_buffer
  by (simp add: handleResponse_no_log res_writes_frame eval_nat_numeral)

text \<open>C6, the amended claim on a response written in two chunks.\<close>

theorem cycle_one_log_witness:
  "\<not> write_fails test_world
       (logFilename test_platform ''/app/logs'' (now_ms test_world (clock_reads test_world + 3))
          (uuid_gen test_world (uuid_calls test_world)))
   \<and> logFilename test_platform ''/app/logs'' (now_ms test_world (clock_reads test_world + 3))
          (uuid_gen test_world (uuid_calls test_world)) =
       ''/app/logs/logs-2023-11-14T22-13-20-015Z-1b9d6bcd.log''
   \<and> outcome (cycle test_platform ''/app/logs'' (test_request None)
                [(Buf (ascii_bytes ''he''), [])] (Buf (ascii_bytes ''llo'')) []
                (fresh_response []) test_world) = Inr ()
   \<and> dom (fs (world_of (cycle test_platform ''/app/logs'' (test_request None)
                [(Buf (ascii_bytes ''he''), [])] (Buf (ascii_bytes ''llo'')) []
                (fresh_response []) test_world))) =
       {''/app/logs/logs-2023-11-14T22-13-20-015Z-1b9d6bcd.log''}
   \<and> length (filter is_log (console (world_of (cycle test_platform ''/app/logs''
                (test_request None) [(Buf (ascii_bytes ''he''), [])] (Buf (ascii_bytes ''llo''))
                [] (fresh_response []) test_world)))) = 1"
proof -
  have h: "\<not> write_fails test_world
             (logFilename test_platform ''/app/logs''
                (now_ms test_world (clock_reads test_world + 3))
                (uuid_gen test_world (uuid_calls test_world)))"
    by (simp add: test_world_def)
  have n: "logFilename test_platform ''/app/logs''
             (now_ms test_world (clock_reads test_world + 3))
             (uuid_gen test_world (uuid_calls test_world)) =
           ''/app/logs/logs-2023-11-14T22-13-20-015Z-1b9d6bcd.log''"
    by code_simp
  have e: "fs test_world = Map.empty" "console test_world = []"
    "\<not> write_fails test_world p" for p
    by (simp_all add: test_world_def)
  show ?thesis
    using cycle_one_log [OF h, of "test_request None" "[(Buf (ascii_bytes ''he''), [])]"
        "Buf (ascii_bytes ''llo'')" "[]" "fresh_response []"]
    by (simp add: e n del: fun_upd_apply)
qed

text \<open>
  C6 as stated fails: when the file system refuses the write, the cycle ends with no
  log file written and nothing printed.
\<close>

theorem cycle_broken_disk_no_log:
  "fs (world_of (cycle test_platform ''/app/logs'' (test_request None)
                   [(Buf (ascii_bytes ''he''), [])] (Buf (ascii_bytes ''llo'')) []
                   (fresh_response []) broken_disk)) = Map.empty
   \<and> console (world_of (cycle test_platform ''/app/logs'' (test_request None)
                   [(Buf (ascii_bytes ''he''), [])] (Buf (ascii_bytes ''llo'')) []
                   (fresh_response []) broken_disk)) = []"
proof -
  have f: "write_fails broken_disk p" for p
    by (simp add: broken_disk_def)
  have e: "fs broken_disk = Map.empty" "console broken_disk = []"
    by (simp_all add: broken_disk_def test_world_def)
  have d: "handleResponse test_platform (ascii_bytes ''hello'') [] =
             ([], \<lparr>cr_text = ''hello'', cr_json = JNull\<rparr>)"
    by code_simp
  have c: "ascii_bytes ''he'' @ ascii_bytes ''llo'' = ascii_bytes ''hello''"
    by (simp add: ascii_bytes_def)
  show ?thesis
    unfolding cycle_unfold res_end_unfold Let_def end_logEntry_world cycle_buffer
    by (simp add: f e fresh_response_def res_writes_frame c d)
qed

text \<open>The body of the log entry is the parsed value when that is truthy, the text otherwise.\<close>

lemma cycle_logEntry_body:
  fixes res :: "'a response"
  shows "le_body (cycle_logEntry P req ws c res w) =
     (let r = snd (handleResponse P (concat (map (chunk_bytes P) (map fst ws @ [c])))
                     (res_headers res))
      in if truthy (cr_json r) then cr_json r else JStr (cr_text r))"
  by (simp add: cycle_logEntry_unfold Let_def js_or_def)

text \<open>
  Claim C7 (the logged body is the parsed JSON whenever \<^verbatim>\<open>json\<close> is present) fails on
  the code for a body that parses to a falsy value.  For the response body \<^verbatim>\<open>0\<close> the
  \<^verbatim>\<open>json\<close> field of the decoded response is the number 0, and the body of the log
  entry is the string \<^verbatim>\<open>"0"\<close>.
\<close>

theorem logEntry_body_zero:
  "cr_json (snd (handleResponse test_platform (ascii_bytes ''0'') [])) = JNum 0
   \<and> le_body (cycle_logEntry test_platform (test_request None) [] (Buf (ascii_bytes ''0''))
                (fresh_response []) test_world) = JStr ''0''"
proof -
  have d: "handleResponse test_platform (ascii_bytes ''0'') [] =
             ([], \<lparr>cr_text = ''0'', cr_json = JNum 0\<rparr>)"
    by code_simp
  show ?thesis
    by (simp add: cycle_logEntry_body fresh_response_def d)
qed

text \<open>
  Claim C8, as amended.  The request timestamp is the clock reading of the middleware
  and the response timestamp the first reading of \<^verbatim>\<open>res.end\<close>; the recorded duration is
  a further reading, taken when the log entry is built after the body has been
  decoded, minus the request reading, in milliseconds.  It is at least zero whenever
  that reading is not earlier than the request reading, and it is the difference of
  the two timestamps whenever the clock did not move between the last two readings.
\<close>

theorem cycle_duration:
  fixes res :: "'a response"
  shows "ts_request (cycle_logEntry P req ws c res w) = toISOString P (now_ms w (clock_reads w))
     \<and> ts_response (cycle_logEntry P req ws c res w) =
         toISOString P (now_ms w (clock_reads w + 1))
     \<and> duration (cycle_logEntry P req ws c res w) =
         now_ms w (clock_reads w + 2) - now_ms w (clock_reads w)
     \<and> (now_ms w (clock_reads w) \<le> now_ms w (clock_reads w + 2)
          \<longrightarrow> 0 \<le> duration (cycle_logEntry P req ws c res w))
     \<and> (now_ms w (clock_reads w + 2) = now_ms w (clock_reads w + 1)
          \<longrightarrow> duration (cycle_logEntry P req ws c res w) =
              now_ms w (clock_reads w + 1) - now_ms w (clock_reads w))"
  by (simp add: cycle_logEntry_unfold Let_def)

text \<open>C8, the amended claim in a world whose clock stands still.\<close>

theorem cycle_duration_witness:
  "now_ms same_ms_world (clock_reads same_ms_world)
     \<le> now_ms same_ms_world (clock_reads same_ms_world + 2)
   \<and> now_ms same_ms_world (clock_reads same_ms_world + 2) =
       now_ms same_ms_world (clock_reads same_ms_world + 1)
   \<and> duration (cycle_logEntry test_platform (test_request None) [] (Buf (ascii_bytes ''{}''))
                 (fresh_response []) same_ms_world) = 0
   \<and> ts_response (cycle_logEntry test_platform (test_request None) []
                 (Buf (ascii_bytes ''{}'')) (fresh_response []) same_ms_world) =
       ''2023-11-14T22:13:20.000Z''"
proof -
  have i: "toISOString test_platform 1700000000000 = ''2023-11-14T22:13:20.000Z''"
    by code_simp
  have n: "now_ms same_ms_world k = 1700000000000" for k
    by (simp add: same_ms_world_def)
  show ?thesis
    using cycle_duration [of test_platform "test_request None" "[]" "Buf (ascii_bytes ''{}'')"
        "fresh_response []" same_ms_world]
    by (simp add: n i)
qed

text \<open>
  C8 as stated fails: with a clock that advances by 5 ms from one reading to the next,
  the two timestamps of the entry are 5 ms apart and the recorded duration is 10 ms.
\<close>

theorem duration_not_difference:
  "ts_request (cycle_logEntry test_platform (test_request None) [] (Buf (ascii_bytes ''{}''))
                 (fresh_response []) test_world) = ''2023-11-14T22:13:20.000Z''
   \<and> ts_response (cycle_logEntry test_platform (test_request None) []
                 (Buf (ascii_bytes ''{}'')) (fresh_response []) test_world) =
       ''2023-11-14T22:13:20.005Z''
   \<and> duration (cycle_logEntry test_platform (test_request None) [] (Buf (ascii_bytes ''{}''))
                 (fresh_response []) test_world) = 10"
proof -
  have i: "toISOString test_platform 1700000000000 = ''2023-11-14T22:13:20.000Z''"
    "toISOString test_platform 1700000000005 = ''2023-11-14T22:13:20.005Z''"
    by code_simp+
  have n: "now_ms test_world k = 1700000000000 + 5 * int k" "clock_reads test_world = 0" for k
    by (simp_all add: test_world_def)
  show ?thesis
    by (simp add: cycle_logEntry_unfold Let_def n i)
qed

section \<open>Properties of the log file name\<close>






section \<open>Properties of the error hook\<close>

text \<open>
  The hook answers with status 500 and the JSON-RPC error body when no header has been
  sent (and the log file can be written), and sends nothing otherwise; the \<^verbatim>\<open>id\<close> of
  the body is the \<^verbatim>\<open>id\<close> of the request when that is truthy and \<^verbatim>\<open>null\<close> otherwise.
\<close>

lemma error_body_id:
  "error_body req =
     JObj [(''jsonrpc'', JStr ''2.0''),
           (''error'', JObj [(''code'', JNum (- 32603)), (''message'', JStr ''Proxy error'')]),
           (''id'', (case opt_chain (req_body req) ''id'' of
                       None \<Rightarrow> JNull
                     | Some v \<Rightarrow> if truthy v then v else JNull))]"
  by (simp add: error_body_def split: option.splits)

lemma onError_sends:
  fixes res :: "'a response"
  assumes "\<not> headersSent res"
    and "\<not> write_fails w
             (logFilename P dir (now_ms w (clock_reads w + 2)) (uuid_gen w (uuid_calls w)))"
  shows "outcome (onError P dir err req ctx res w) = Inr ()"
    and "statusCode (res_of (onError P dir err req ctx res w)) = 500"
    and "sink (res_of (onError P dir err req ctx res w)) =
           sink res @ [Head 500 [(''Content-Type'', HStr ''application/json'')],
                       End (Str (JSON_stringify P (error_body req))) []]"
  using assms
  by (simp_all add: onError_def res_end_unfold Let_def console_emit_def writeHead_def
      originalEnd_def)

lemma onError_headers_sent:
  fixes res :: "'a response"
  assumes "headersSent res"
  shows "outcome (onError P dir err req ctx res w) = Inr ()"
    and "res_of (onError P dir err req ctx res w) = res"
    and "fs (world_of (onError P dir err req ctx res w)) = fs w"
  using assms
  by (simp_all add: onError_def console_emit_def)

text \<open>
  Claim C10 (the \<^verbatim>\<open>id\<close> of the error body is \<^verbatim>\<open>null\<close> exactly when the request carried
  no \<^verbatim>\<open>id\<close>) fails on the code for a request whose \<^verbatim>\<open>id\<close> is falsy.  The JSON-RPC
  request with \<^verbatim>\<open>"id": 0\<close> is answered with status 500 and \<^verbatim>\<open>"id":null\<close>.
\<close>

theorem onError_id_zero:
  "opt_chain (req_body (test_request (Some (JObj [(''jsonrpc'', JStr ''2.0''),
       (''method'', JStr ''eth_blockNumber''), (''params'', JArr []), (''id'', JNum 0)]))))
     ''id'' = Some (JNum 0)
   \<and> sink (res_of (onError test_platform ''/app/logs'' TransportError
        (test_request (Some (JObj [(''jsonrpc'', JStr ''2.0''),
           (''method'', JStr ''eth_blockNumber''), (''params'', JArr []), (''id'', JNum 0)])))
        (fst (middleware test_platform
           (test_request (Some (JObj [(''jsonrpc'', JStr ''2.0''),
              (''method'', JStr ''eth_blockNumber''), (''params'', JArr []), (''id'', JNum 0)])))
           test_world))
        (fresh_response [])
        (snd (middleware test_platform
           (test_request (Some (JObj [(''jsonrpc'', JStr ''2.0''),
              (''method'', JStr ''eth_blockNumber''), (''params'', JArr []), (''id'', JNum 0)])))
           test_world)))) =
       [Head 500 [(''Content-Type'', HStr ''application/json'')],
        End (Str ''{\"jsonrpc\":\"2.0\",\"error\":{\"code\":-32603,\"message\":\"Proxy error\"},\"id\":null}'')
          []]"
proof -
  have s: "JSON_stringify test_platform
             (error_body (test_request (Some (JObj [(''jsonrpc'', JStr ''2.0''),
                (''method'', JStr ''eth_blockNumber''), (''params'', JArr []),
                (''id'', JNum 0)])))) =
           ''{\"jsonrpc\":\"2.0\",\"error\":{\"code\":-32603,\"message\":\"Proxy error\"},\"id\":null}''"
    by code_simp
  have i: "opt_chain (req_body (test_request (Some (JObj [(''jsonrpc'', JStr ''2.0''),
             (''method'', JStr ''eth_blockNumber''), (''params'', JArr []),
             (''id'', JNum 0)])))) ''id'' = Some (JNum 0)"
    by (simp add: test_request_def)
  have f: "\<not> write_fails (snd (middleware test_platform req test_world)) p" for req p
    by (simp add: middleware_fields test_world_def)
  have h: "\<not> headersSent (fresh_response [] :: unit response)"
    by (simp add: fresh_response_def)
  show ?thesis
    by (simp only: i onError_sends(3) [OF h f] s) (simp add: fresh_response_def)
qed

end
